theory Spec2Isabelle
  imports Complex_Main
begin

section \<open>Errors\<close>

text \<open>
  Every exception that the program can raise is a value of \<open>error\<close>; a computation
  that may raise returns \<open>error + 'a\<close>, with \<open>Inl\<close> for the exception.
\<close>

datatype error = ValueError | IndexError | ZeroDivisionError | RuntimeError

definition and_then :: "error + 'a \<Rightarrow> ('a \<Rightarrow> error + 'b) \<Rightarrow> error + 'b" where
  "and_then m f = (case m of Inl e \<Rightarrow> Inl e | Inr x \<Rightarrow> f x)"

section \<open>Tensor shapes of the library layers\<close>

text \<open>
  The network is a composition of layers of the tensor library.  Their values are
  floating-point tensors; what the model keeps of a tensor is its shape.  A feature
  tensor has shape \<open>(batch, channels, length)\<close>.  Each layer below is the shape
  contract of the library layer of the same name: the shape it returns, and the
  shapes it refuses.
\<close>

type_synonym shape3 = "nat \<times> nat \<times> nat"
type_synonym shape2 = "nat \<times> nat"

text \<open>
  \<open>nn.Conv1d(c_in, c_out, kernel_size, stride, padding)\<close>: the channel count must
  be \<open>c_in\<close>, the stride positive and the padded input at least as long as the
  kernel; the output length is \<open>\<lfloor>(l + 2 p - k) / s\<rfloor> + 1\<close>.
\<close>

definition conv1d :: "nat \<Rightarrow> nat \<Rightarrow> nat \<Rightarrow> nat \<Rightarrow> nat \<Rightarrow> shape3 \<Rightarrow> error + shape3" where
  "conv1d c_in c_out k s p x =
     (case x of (n, c, l) \<Rightarrow>
        if c \<noteq> c_in \<or> s = 0 \<or> l + 2 * p < k then Inl RuntimeError
        else Inr (n, c_out, (l + 2 * p - k) div s + 1))"

text \<open>
  \<open>nn.BatchNorm1d(num_features)\<close> keeps the shape.  It refuses a channel count other
  than \<open>num_features\<close> and, in training mode, an input with a single value per
  channel (\<open>batch * length = 1\<close>).
\<close>

definition batch_norm1d :: "bool \<Rightarrow> nat \<Rightarrow> shape3 \<Rightarrow> error + shape3" where
  "batch_norm1d training num_features x =
     (case x of (n, c, l) \<Rightarrow>
        if c \<noteq> num_features then Inl RuntimeError
        else if training \<and> n * l = 1 then Inl ValueError
        else Inr (n, c, l))"

definition relu :: "shape3 \<Rightarrow> error + shape3" where
  "relu x = Inr x"

text \<open>\<open>nn.MaxPool1d(kernel_size, stride, padding)\<close>, with the default floor mode.\<close>

definition max_pool1d :: "nat \<Rightarrow> nat \<Rightarrow> nat \<Rightarrow> shape3 \<Rightarrow> error + shape3" where
  "max_pool1d k s p x =
     (case x of (n, c, l) \<Rightarrow>
        if s = 0 \<or> l + 2 * p < k then Inl RuntimeError
        else Inr (n, c, (l + 2 * p - k) div s + 1))"

text \<open>\<open>nn.AdaptiveAvgPool1d(1)\<close> averages a non-empty length axis to one value.\<close>

definition adaptive_avg_pool1d :: "shape3 \<Rightarrow> error + shape3" where
  "adaptive_avg_pool1d x =
     (case x of (n, c, l) \<Rightarrow> if l = 0 then Inl RuntimeError else Inr (n, c, 1))"

text \<open>\<open>torch.flatten(out, 1)\<close> merges every axis after the batch axis.\<close>

definition flatten :: "shape3 \<Rightarrow> error + shape2" where
  "flatten x = (case x of (n, c, l) \<Rightarrow> Inr (n, c * l))"

text \<open>\<open>nn.Linear(in_features, out_features)\<close>.\<close>

definition linear :: "nat \<Rightarrow> nat \<Rightarrow> shape2 \<Rightarrow> error + shape2" where
  "linear in_features out_features x =
     (case x of (n, f) \<Rightarrow> if f \<noteq> in_features then Inl RuntimeError else Inr (n, out_features))"

text \<open>
  Elementwise addition broadcasts: on each axis the two sizes are equal or one of
  them is 1; any other pair of sizes is refused.
\<close>

definition broadcast_dim :: "nat \<Rightarrow> nat \<Rightarrow> error + nat" where
  "broadcast_dim a b =
     (if a = b then Inr a else if a = 1 then Inr b else if b = 1 then Inr a
      else Inl RuntimeError)"

definition tensor_add :: "shape3 \<Rightarrow> shape3 \<Rightarrow> error + shape3" where
  "tensor_add x y =
     (case (x, y) of ((n, c, l), (n', c', l')) \<Rightarrow>
        and_then (broadcast_dim n n') (\<lambda>bn.
        and_then (broadcast_dim c c') (\<lambda>bc.
        and_then (broadcast_dim l l') (\<lambda>bl. Inr (bn, bc, bl)))))"

section \<open>The bottleneck block\<close>

text \<open>
  The skip-path projection that \<open>_make_layer\<close> builds:
  \<open>nn.Sequential(nn.Conv1d(a, b, kernel_size=1, stride=s, bias=False), nn.BatchNorm1d(f))\<close>.
\<close>

record projection =
  proj_in :: nat
  proj_out :: nat
  proj_stride :: nat
  proj_features :: nat

definition projection_forward :: "bool \<Rightarrow> projection \<Rightarrow> shape3 \<Rightarrow> error + shape3" where
  "projection_forward training d x =
     and_then (conv1d (proj_in d) (proj_out d) 1 (proj_stride d) 0 x)
       (batch_norm1d training (proj_features d))"

definition expansion :: nat where
  "expansion = 4"

text \<open>The arguments of \<open>Bottleneck.__init__\<close>; the layers of the block follow from them.\<close>

record bottleneck =
  inplanes :: nat
  planes :: nat
  stride :: nat
  downsample :: "projection option"

definition Bottleneck_forward :: "bool \<Rightarrow> bottleneck \<Rightarrow> shape3 \<Rightarrow> error + shape3" where
  "Bottleneck_forward training b x =
     and_then (conv1d (inplanes b) (planes b) 1 1 0 x) (\<lambda>out.
     and_then (batch_norm1d training (planes b) out) (\<lambda>out.
     and_then (relu out) (\<lambda>out.
     and_then (conv1d (planes b) (planes b) 3 (stride b) 1 out) (\<lambda>out.
     and_then (batch_norm1d training (planes b) out) (\<lambda>out.
     and_then (relu out) (\<lambda>out.
     and_then (conv1d (planes b) (planes b * expansion) 1 1 0 out) (\<lambda>out.
     and_then (batch_norm1d training (planes b * expansion) out) (\<lambda>out.
     and_then (relu out) (\<lambda>out.
     and_then (case downsample b of None \<Rightarrow> Inr x
               | Some d \<Rightarrow> projection_forward training d x) (\<lambda>residual.
     and_then (tensor_add out residual) relu))))))))))"

section \<open>The backbone network\<close>

text \<open>
  \<open>ResNet._make_layer\<close> reads and updates the attribute \<open>self.inplanes\<close>: the model
  takes its value and returns the new one beside the stage.  \<open>range(1, blocks)\<close> is
  empty for \<open>blocks \<le> 1\<close>, so a stage has at least its first block.
\<close>

definition make_layer :: "nat \<Rightarrow> nat \<Rightarrow> nat \<Rightarrow> nat \<Rightarrow> bottleneck list \<times> nat" where
  "make_layer self_inplanes pl blocks st =
     (let ds = (if st \<noteq> 1 \<or> self_inplanes \<noteq> pl * expansion
                then Some \<lparr>proj_in = self_inplanes, proj_out = pl * expansion,
                           proj_stride = st, proj_features = pl * expansion\<rparr>
                else None);
          first = \<lparr>inplanes = self_inplanes, planes = pl, stride = st, downsample = ds\<rparr>;
          self_inplanes' = pl * expansion;
          rest = replicate (blocks - 1)
                   \<lparr>inplanes = self_inplanes', planes = pl, stride = 1, downsample = None\<rparr>
      in (first # rest, self_inplanes'))"

record resnet =
  layer_1 :: "bottleneck list"
  layer_2 :: "bottleneck list"
  layer_3 :: "bottleneck list"
  layer_4 :: "bottleneck list"
  fc_in :: nat
  fc_out :: nat

text \<open>
  \<open>ResNet.__init__(block, layers, num_classes)\<close> with \<open>block = Bottleneck\<close>; indexing
  \<open>layers[0..3]\<close> raises on a list of fewer than four block counts.
\<close>

definition ResNet_init :: "nat list \<Rightarrow> nat \<Rightarrow> error + resnet" where
  "ResNet_init layers num_classes =
     (if length layers < 4 then Inl IndexError
      else
        (case make_layer 64 64 (layers ! 0) 1 of (l1, i1) \<Rightarrow>
         case make_layer i1 128 (layers ! 1) 2 of (l2, i2) \<Rightarrow>
         case make_layer i2 256 (layers ! 2) 2 of (l3, i3) \<Rightarrow>
         case make_layer i3 512 (layers ! 3) 2 of (l4, i4) \<Rightarrow>
           Inr \<lparr>layer_1 = l1, layer_2 = l2, layer_3 = l3, layer_4 = l4,
                fc_in = 512 * expansion, fc_out = num_classes\<rparr>))"

text \<open>\<open>nn.Sequential\<close>: the blocks in order, stopping at the first one that raises.\<close>

fun sequential :: "bool \<Rightarrow> bottleneck list \<Rightarrow> shape3 \<Rightarrow> error + shape3" where
  "sequential training [] x = Inr x"
| "sequential training (b # bs) x =
     and_then (Bottleneck_forward training b x) (sequential training bs)"

definition ResNet_forward :: "bool \<Rightarrow> resnet \<Rightarrow> shape3 \<Rightarrow> error + shape2" where
  "ResNet_forward training net x =
     and_then (conv1d 12 64 15 2 7 x) (\<lambda>out.
     and_then (batch_norm1d training 64 out) (\<lambda>out.
     and_then (relu out) (\<lambda>out.
     and_then (max_pool1d 3 2 1 out) (\<lambda>out.
     and_then (sequential training (layer_1 net) out) (\<lambda>out.
     and_then (sequential training (layer_2 net) out) (\<lambda>out.
     and_then (sequential training (layer_3 net) out) (\<lambda>out.
     and_then (sequential training (layer_4 net) out) (\<lambda>out.
     and_then (adaptive_avg_pool1d out) (\<lambda>out.
     and_then (flatten out) (\<lambda>out.
       linear (fc_in net) (fc_out net) out))))))))))"

section \<open>Shape predicates used by the properties\<close>

text \<open>\<open>\<lceil>l / s\<rceil>\<close> on natural numbers.\<close>

definition ceil_div :: "nat \<Rightarrow> nat \<Rightarrow> nat" where
  "ceil_div l s = (l + s - 1) div s"

text \<open>
  A validly constructed block: positive channel counts and stride, and a skip path
  whose shape agrees with the main path.  Without a projection the input already has
  \<open>planes * 4\<close> channels and the stride is 1; a projection maps \<open>inplanes\<close> to
  \<open>planes * 4\<close> channels with the stride of the block, as \<open>_make_layer\<close> builds it.
\<close>

definition valid_block :: "bottleneck \<Rightarrow> bool" where
  "valid_block b =
     (0 < inplanes b \<and> 0 < planes b \<and> 0 < stride b \<and>
      (case downsample b of
         None \<Rightarrow> stride b = 1 \<and> inplanes b = planes b * expansion
       | Some d \<Rightarrow> proj_in d = inplanes b \<and> proj_out d = planes b * expansion \<and>
                  proj_stride d = stride b \<and> proj_features d = planes b * expansion))"

text \<open>The length left by the stem convolution, the pooling and the three strided stages.\<close>

definition final_length :: "nat \<Rightarrow> nat" where
  "final_length l = ceil_div (ceil_div (ceil_div (ceil_div (ceil_div l 2) 2) 2) 2) 2"

section \<open>Numbers of the metric reporter\<close>

text \<open>
  The reporter divides counts and rates as 64-bit floating-point numbers, where a
  division by zero is not an exception (its warning is filtered at import time): it
  gives an infinity, or NaN for \<open>0 / 0\<close>.  The model keeps these outcomes apart and
  takes every finite number as the rational it denotes; the rounding of the
  floating-point operations is not modelled.
\<close>

datatype np_float = Fin rat | PInf | NInf | NaN

definition is_neg :: "np_float \<Rightarrow> bool" where
  "is_neg x = (case x of Fin a \<Rightarrow> a < 0 | NInf \<Rightarrow> True | _ \<Rightarrow> False)"

definition signed_inf :: "bool \<Rightarrow> np_float" where
  "signed_inf negative = (if negative then NInf else PInf)"

definition np_add :: "np_float \<Rightarrow> np_float \<Rightarrow> np_float" where
  "np_add x y =
     (case (x, y) of
        (Fin a, Fin b) \<Rightarrow> Fin (a + b)
      | (NaN, _) \<Rightarrow> NaN
      | (_, NaN) \<Rightarrow> NaN
      | (PInf, NInf) \<Rightarrow> NaN
      | (NInf, PInf) \<Rightarrow> NaN
      | (Fin a, z) \<Rightarrow> z
      | (z, _) \<Rightarrow> z)"

definition np_mul :: "np_float \<Rightarrow> np_float \<Rightarrow> np_float" where
  "np_mul x y =
     (case (x, y) of
        (Fin a, Fin b) \<Rightarrow> Fin (a * b)
      | (NaN, _) \<Rightarrow> NaN
      | (_, NaN) \<Rightarrow> NaN
      | _ \<Rightarrow> if x = Fin 0 \<or> y = Fin 0 then NaN else signed_inf (is_neg x \<noteq> is_neg y))"

definition np_div :: "np_float \<Rightarrow> np_float \<Rightarrow> np_float" where
  "np_div x y =
     (case (x, y) of
        (Fin a, Fin b) \<Rightarrow>
          if b \<noteq> 0 then Fin (a / b)
          else if a = 0 then NaN else signed_inf (a < 0)
      | (NaN, _) \<Rightarrow> NaN
      | (_, NaN) \<Rightarrow> NaN
      | (Fin a, _) \<Rightarrow> Fin 0
      | (_, Fin b) \<Rightarrow> signed_inf (is_neg x \<noteq> (b < 0))
      | _ \<Rightarrow> NaN)"

text \<open>
  \<open>np.mean\<close> of a list of floating-point numbers: the sum over the number of
  entries, so the mean of an empty list is \<open>0 / 0\<close>.
\<close>

definition np_sum :: "np_float list \<Rightarrow> np_float" where
  "np_sum xs = foldl np_add (Fin 0) xs"

definition np_mean :: "np_float list \<Rightarrow> np_float" where
  "np_mean xs = np_div (np_sum xs) (Fin (of_nat (length xs)))"

text \<open>An integer count, converted to floating point where it meets a division or a mean.\<close>

definition of_count :: "nat \<Rightarrow> np_float" where
  "of_count n = Fin (of_nat n)"

section \<open>Arrays\<close>

text \<open>
  A two-dimensional array of shape \<open>(samples, labels)\<close> is held as the list of its
  columns, one per label, each a list over the samples: \<open>a.shape[1]\<close> is the number
  of columns and \<open>a[:, i]\<close> is column \<open>i\<close>, which raises past the last column.
\<close>

type_synonym 'a array2 = "'a list list"

definition column :: "'a array2 \<Rightarrow> nat \<Rightarrow> error + 'a list" where
  "column a i = (if i < length a then Inr (a ! i) else Inl IndexError)"

text \<open>
  \<open>np.concatenate\<close> along the sample axis: it needs at least one array, and arrays
  with the same number of columns.
\<close>

fun np_concatenate :: "'a array2 list \<Rightarrow> error + 'a array2" where
  "np_concatenate [] = Inl ValueError"
| "np_concatenate [a] = Inr a"
| "np_concatenate (a # as) =
     and_then (np_concatenate as) (\<lambda>rest.
       if length a = length rest then Inr (map (\<lambda>(c, d). c @ d) (zip a rest))
       else Inl ValueError)"

section \<open>The library metrics\<close>

text \<open>
  \<open>confusion_matrix(y_true, y_pred, labels=[0, 1])\<close>: entry \<open>[t][p]\<close> counts the
  samples of true class \<open>t\<close> predicted as \<open>p\<close>; the two arrays must have the same
  number of samples.  The classes 0 and 1 are \<open>False\<close> and \<open>True\<close>.
\<close>

definition count_of :: "bool \<Rightarrow> bool \<Rightarrow> bool list \<Rightarrow> bool list \<Rightarrow> nat" where
  "count_of t p y_true y_pred = length (filter (\<lambda>(y, q). y = t \<and> q = p) (zip y_true y_pred))"

definition confusion_matrix :: "bool list \<Rightarrow> bool list \<Rightarrow> error + (bool \<Rightarrow> bool \<Rightarrow> nat)" where
  "confusion_matrix y_true y_pred =
     (if length y_true \<noteq> length y_pred then Inl ValueError
      else Inr (\<lambda>t p. count_of t p y_true y_pred))"

text \<open>
  \<open>roc_auc_score(y_true, y_score)\<close> raises when \<open>y_true\<close> holds a single class (or
  none), as the specification of the program records for its library.  Otherwise it
  is the area under the ROC curve: the share of (positive, negative) pairs that the
  scores order correctly, a tie counting one half.
\<close>

definition auc_pairs :: "bool list \<Rightarrow> rat list \<Rightarrow> rat" where
  "auc_pairs y_true y_score =
     (\<Sum>(y, s) \<leftarrow> zip y_true y_score. \<Sum>(y', s') \<leftarrow> zip y_true y_score.
        if y \<and> \<not> y' then (if s' < s then 1 else if s' = s then 1 / 2 else 0) else 0)"

definition roc_auc_score :: "bool list \<Rightarrow> rat list \<Rightarrow> error + np_float" where
  "roc_auc_score y_true y_score =
     (if length y_true \<noteq> length y_score then Inl ValueError
      else if \<not> (True \<in> set y_true \<and> False \<in> set y_true) then Inl ValueError
      else Inr (Fin (auc_pairs y_true y_score /
                      of_nat (length (filter id y_true) * length (filter Not y_true)))))"

section \<open>The metric reporter\<close>

text \<open>The per-label rates and the F1 score of \<open>metric_func\<close>, as the source writes them.\<close>

definition sensitivity_of :: "nat \<Rightarrow> nat \<Rightarrow> np_float" where
  "sensitivity_of TP_i FN_i = np_div (of_count TP_i) (of_count (TP_i + FN_i))"

definition specificity_of :: "nat \<Rightarrow> nat \<Rightarrow> np_float" where
  "specificity_of TN_i FP_i = np_div (of_count TN_i) (of_count (TN_i + FP_i))"

definition precision_of :: "nat \<Rightarrow> nat \<Rightarrow> np_float" where
  "precision_of TP_i FP_i = np_div (of_count TP_i) (of_count (TP_i + FP_i))"

definition f1_of :: "np_float \<Rightarrow> np_float \<Rightarrow> np_float" where
  "f1_of s p = np_div (np_mul (np_mul (Fin 2) s) p) (np_add s p)"

text \<open>The lists that the loop over the labels appends to.\<close>

record label_lists =
  TP :: "nat list"
  FP :: "nat list"
  TN :: "nat list"
  FN :: "nat list"
  sensitivity :: "np_float list"
  specificity :: "np_float list"
  precision :: "np_float list"
  my_f1 :: "np_float list"
  roc_auc :: "np_float list"

definition no_labels :: label_lists where
  "no_labels = \<lparr>TP = [], FP = [], TN = [], FN = [], sensitivity = [], specificity = [],
                 precision = [], my_f1 = [], roc_auc = []\<rparr>"

text \<open>
  One iteration of \<open>for i in range(0, bin_labels.shape[1])\<close>, in two parts: the
  confusion counts, the rates and the F1 score of label \<open>i\<close>, appended to the lists;
  then the call of \<open>roc_auc_score\<close>, which comes last in the loop body.
\<close>

definition label_rates ::
  "bool array2 \<Rightarrow> bool array2 \<Rightarrow> label_lists \<Rightarrow> nat \<Rightarrow> error + label_lists" where
  "label_rates bin_labels bin_preds st i =
     and_then (column bin_labels i) (\<lambda>y_true.
     and_then (column bin_preds i) (\<lambda>y_pred.
     and_then (confusion_matrix y_true y_pred) (\<lambda>conf_matrix.
       let TP_i = conf_matrix True True; FP_i = conf_matrix False True;
           TN_i = conf_matrix False False; FN_i = conf_matrix True False;
           sensitivity_i = sensitivity_of TP_i FN_i;
           specificity_i = specificity_of TN_i FP_i;
           precision_i = precision_of TP_i FP_i
       in Inr (st\<lparr>TP := TP st @ [TP_i], FP := FP st @ [FP_i],
                   TN := TN st @ [TN_i], FN := FN st @ [FN_i],
                   sensitivity := sensitivity st @ [sensitivity_i],
                   specificity := specificity st @ [specificity_i],
                   precision := precision st @ [precision_i],
                   my_f1 := my_f1 st @ [f1_of sensitivity_i precision_i]\<rparr>))))"

definition label_step ::
  "bool array2 \<Rightarrow> bool array2 \<Rightarrow> rat array2 \<Rightarrow> label_lists \<Rightarrow> nat \<Rightarrow> error + label_lists" where
  "label_step bin_labels bin_preds preds st i =
     and_then (label_rates bin_labels bin_preds st i) (\<lambda>st.
     and_then (column bin_labels i) (\<lambda>y_true.
     and_then (column preds i) (\<lambda>y_score.
     and_then (roc_auc_score y_true y_score) (\<lambda>auc.
       Inr (st\<lparr>roc_auc := roc_auc st @ [auc]\<rparr>)))))"

text \<open>A \<open>for\<close> loop whose body may raise: the first exception ends it.\<close>

fun for_each :: "('s \<Rightarrow> 'i \<Rightarrow> error + 's) \<Rightarrow> 'i list \<Rightarrow> 's \<Rightarrow> error + 's" where
  "for_each body [] st = Inr st"
| "for_each body (i # is) st = and_then (body st i) (for_each body is)"

text \<open>
  What \<open>metric_func\<close> prints after the loop: the counts of every label, the micro and
  macro blocks, the mean F1 under the heading \<open>Weighted averaging with w_k=1\<close> and
  the mean ROC-AUC.  The text of the library's classification report, printed last,
  is not modelled.
\<close>

record report =
  counts :: "(nat \<times> nat \<times> nat \<times> nat) list"
  micro_sensitivity :: np_float
  micro_specificity :: np_float
  micro_precision :: np_float
  micro_f1 :: np_float
  macro_sensitivity :: np_float
  macro_specificity :: np_float
  macro_precision :: np_float
  macro_f1 :: np_float
  weighted_f1 :: np_float
  roc_auc_mean :: np_float

definition metric_func :: "bool array2 \<Rightarrow> bool array2 \<Rightarrow> rat array2 \<Rightarrow> error + report" where
  "metric_func bin_labels bin_preds preds =
     and_then (for_each (label_step bin_labels bin_preds preds)
                 [0 ..< length bin_labels] no_labels) (\<lambda>st.
       let TP_mean = np_mean (map of_count (TP st));
           FP_mean = np_mean (map of_count (FP st));
           TN_mean = np_mean (map of_count (TN st));
           FN_mean = np_mean (map of_count (FN st));
           micro_sens = np_div TP_mean (np_add TP_mean FN_mean);
           micro_spec = np_div TN_mean (np_add TN_mean FP_mean);
           micro_prec = np_div TP_mean (np_add TP_mean FP_mean);
           macro_sens = np_mean (sensitivity st);
           macro_spec = np_mean (specificity st);
           macro_prec = np_mean (precision st)
       in Inr \<lparr>counts = zip (TP st) (zip (FP st) (zip (TN st) (FN st))),
               micro_sensitivity = micro_sens,
               micro_specificity = micro_spec,
               micro_precision = micro_prec,
               micro_f1 = f1_of micro_sens micro_prec,
               macro_sensitivity = macro_sens,
               macro_specificity = macro_spec,
               macro_precision = macro_prec,
               macro_f1 = f1_of macro_sens macro_prec,
               weighted_f1 = np_mean (my_f1 st),
               roc_auc_mean = np_mean (roc_auc st)\<rparr>)"

section \<open>Quantities used by the properties of the reporter\<close>

text \<open>The F1 score of one label, from its column of labels and its column of predictions.\<close>

definition label_f1 :: "bool list \<Rightarrow> bool list \<Rightarrow> np_float" where
  "label_f1 y_true y_pred =
     f1_of (sensitivity_of (count_of True True y_true y_pred) (count_of True False y_true y_pred))
           (precision_of (count_of True True y_true y_pred) (count_of False True y_true y_pred))"




text \<open>The lists after the loop has run over the label indices \<open>is\<close>, ROC-AUC apart.\<close>

definition appended ::
  "bool array2 \<Rightarrow> bool array2 \<Rightarrow> label_lists \<Rightarrow> nat list \<Rightarrow> label_lists \<Rightarrow> bool" where
  "appended L P st is st' =
     (TP st' = TP st @ map (\<lambda>i. count_of True True (L ! i) (P ! i)) is \<and>
      FP st' = FP st @ map (\<lambda>i. count_of False True (L ! i) (P ! i)) is \<and>
      TN st' = TN st @ map (\<lambda>i. count_of False False (L ! i) (P ! i)) is \<and>
      FN st' = FN st @ map (\<lambda>i. count_of True False (L ! i) (P ! i)) is \<and>
      sensitivity st' = sensitivity st @
        map (\<lambda>i. sensitivity_of (count_of True True (L ! i) (P ! i))
                    (count_of True False (L ! i) (P ! i))) is \<and>
      specificity st' = specificity st @
        map (\<lambda>i. specificity_of (count_of False False (L ! i) (P ! i))
                    (count_of False True (L ! i) (P ! i))) is \<and>
      precision st' = precision st @
        map (\<lambda>i. precision_of (count_of True True (L ! i) (P ! i))
                    (count_of False True (L ! i) (P ! i))) is \<and>
      my_f1 st' = my_f1 st @ map (\<lambda>i. label_f1 (L ! i) (P ! i)) is)"

section \<open>The training and evaluation loops\<close>

text \<open>
  A batch of a loader: the mapping with the keys \<open>ecg_signals\<close> and \<open>labels\<close>.  The
  labels of a batch are an array of shape \<open>(samples, labels)\<close> of zeros and ones.
\<close>

record 'x batch =
  ecg_signals :: 'x
  labels :: "bool array2"

text \<open>
  What \<open>train\<close> and \<open>test\<close> are given and call, as functions on an explicit state
  \<open>'n\<close> of the network parameters: the forward pass \<open>net(samples)\<close>, in training
  (\<open>True\<close>) or evaluation mode, which returns the array of logits; the loss
  \<open>criterion(preds, labels).item()\<close>; the parameter update of one training batch
  (\<open>optimizer.zero_grad()\<close>, \<open>loss.backward()\<close>, \<open>optimizer.step()\<close>); and the
  elementwise \<open>torch.sigmoid\<close>.  Losses, logits and probabilities are finite numbers,
  taken as the rationals they denote.
\<close>

record ('n, 'x) callables =
  forward :: "bool \<Rightarrow> 'n \<Rightarrow> 'x \<Rightarrow> rat array2"
  criterion :: "rat array2 \<Rightarrow> bool array2 \<Rightarrow> rat"
  optimizer_step :: "'n \<Rightarrow> 'x \<Rightarrow> bool array2 \<Rightarrow> 'n"
  sigmoid :: "rat \<Rightarrow> rat"

text \<open>\<open>(preds > treshold_preds).float()\<close>, elementwise.\<close>

definition binarize :: "rat \<Rightarrow> rat array2 \<Rightarrow> bool array2" where
  "binarize treshold_preds preds = map (map (\<lambda>p. treshold_preds < p)) preds"

text \<open>The accumulated loss and the three lists that a pass over a loader appends to.\<close>

record pass_lists =
  loss_sum :: rat
  labels_list :: "bool array2 list"
  preds_list :: "bool array2 list"
  prob_list :: "rat array2 list"

definition no_batches :: pass_lists where
  "no_batches = \<lparr>loss_sum = 0, labels_list = [], preds_list = [], prob_list = []\<rparr>"

text \<open>The body of the loop over \<open>train_loader\<close>: it updates the network and the lists.\<close>

definition train_batch ::
  "('n, 'x) callables \<Rightarrow> rat \<Rightarrow> 'n \<times> pass_lists \<Rightarrow> 'x batch \<Rightarrow> 'n \<times> pass_lists" where
  "train_batch c treshold_preds state b =
     (case state of (net, acc) \<Rightarrow>
        let samples = ecg_signals b; labels = labels b;
            preds = forward c True net samples;
            loss = criterion c preds labels;
            net = optimizer_step c net samples labels;
            train_loss = loss_sum acc + loss;
            preds = map (map (sigmoid c)) preds;
            bin_preds = binarize treshold_preds preds
        in (net, \<lparr>loss_sum = train_loss,
                   labels_list = labels_list acc @ [labels],
                   preds_list = preds_list acc @ [bin_preds],
                   prob_list = prob_list acc @ [preds]\<rparr>))"

text \<open>The body of the loop over \<open>val_loader\<close>, under \<open>net.eval()\<close> and \<open>torch.no_grad()\<close>.\<close>

definition val_batch ::
  "('n, 'x) callables \<Rightarrow> rat \<Rightarrow> 'n \<Rightarrow> pass_lists \<Rightarrow> 'x batch \<Rightarrow> pass_lists" where
  "val_batch c treshold_preds net acc b =
     (let samples = ecg_signals b; labels = labels b;
          preds = forward c False net samples;
          val_loss = loss_sum acc + criterion c preds labels;
          preds = map (map (sigmoid c)) preds;
          bin_preds = binarize treshold_preds preds
      in \<lparr>loss_sum = val_loss,
           labels_list = labels_list acc @ [labels],
           preds_list = preds_list acc @ [bin_preds],
           prob_list = prob_list acc @ [preds]\<rparr>)"

definition train_pass ::
  "('n, 'x) callables \<Rightarrow> rat \<Rightarrow> 'x batch list \<Rightarrow> 'n \<Rightarrow> 'n \<times> pass_lists" where
  "train_pass c treshold_preds train_loader net =
     foldl (train_batch c treshold_preds) (net, no_batches) train_loader"

definition val_pass ::
  "('n, 'x) callables \<Rightarrow> rat \<Rightarrow> 'x batch list \<Rightarrow> 'n \<Rightarrow> pass_lists" where
  "val_pass c treshold_preds val_loader net =
     foldl (val_batch c treshold_preds net) no_batches val_loader"

text \<open>
  \<open>metric_func(np.concatenate(labels), np.concatenate(preds), np.concatenate(prob))\<close>
  on the lists of a pass.
\<close>

definition report_of :: "pass_lists \<Rightarrow> error + report" where
  "report_of acc =
     and_then (np_concatenate (labels_list acc)) (\<lambda>bin_labels.
     and_then (np_concatenate (preds_list acc)) (\<lambda>bin_preds.
     and_then (np_concatenate (prob_list acc)) (\<lambda>preds.
       metric_func bin_labels bin_preds preds)))"

text \<open>
  The rest of an epoch, after the loop over \<open>train_loader\<close> has left the network
  \<open>net\<close> and the lists \<open>acc\<close>: the mean training loss, the validation pass, the
  mean validation loss and the metric report.  Dividing a \<open>float\<close> by \<open>len(loader)\<close>
  raises for an empty loader.  The result is the network, the two losses and the
  printed report.
\<close>

definition after_train_pass ::
  "('n, 'x) callables \<Rightarrow> rat \<Rightarrow> 'x batch list \<Rightarrow> 'x batch list \<Rightarrow> 'n \<times> pass_lists \<Rightarrow>
     error + ('n \<times> rat \<times> rat \<times> report)" where
  "after_train_pass c treshold_preds train_loader val_loader state =
     (case state of (net, acc) \<Rightarrow>
        if length train_loader = 0 then Inl ZeroDivisionError
        else
          let train_loss = loss_sum acc / of_nat (length train_loader);
              val = val_pass c treshold_preds val_loader net
          in if length val_loader = 0 then Inl ZeroDivisionError
             else
               let val_loss = loss_sum val / of_nat (length val_loader)
               in and_then (report_of val) (\<lambda>printed.
                    Inr (net, train_loss, val_loss, printed)))"

definition run_epoch ::
  "('n, 'x) callables \<Rightarrow> rat \<Rightarrow> 'x batch list \<Rightarrow> 'x batch list \<Rightarrow> 'n \<Rightarrow>
     error + ('n \<times> rat \<times> rat \<times> report)" where
  "run_epoch c treshold_preds train_loader val_loader net =
     after_train_pass c treshold_preds train_loader val_loader
       (train_pass c treshold_preds train_loader net)"

text \<open>
  \<open>for epoch in range(n_epoch)\<close>, with the network, the two histories and the reports
  printed so far.
\<close>

fun train_epochs ::
  "('n, 'x) callables \<Rightarrow> rat \<Rightarrow> 'x batch list \<Rightarrow> 'x batch list \<Rightarrow> nat \<Rightarrow>
     'n \<times> rat list \<times> rat list \<times> report list \<Rightarrow>
     error + ('n \<times> rat list \<times> rat list \<times> report list)" where
  "train_epochs c treshold_preds train_loader val_loader 0 state = Inr state"
| "train_epochs c treshold_preds train_loader val_loader (Suc n) state =
     (case state of (net, loss_train_history, loss_val_history, printed) \<Rightarrow>
        and_then (run_epoch c treshold_preds train_loader val_loader net)
          (\<lambda>(net, train_loss, val_loss, rep).
             train_epochs c treshold_preds train_loader val_loader n
               (net, loss_train_history @ [train_loss], loss_val_history @ [val_loss],
                printed @ [rep])))"

text \<open>
  \<open>train\<close> returns the network and the two loss histories; the last component of the
  model's result is what the epochs printed, one metric report each.
\<close>

definition train ::
  "('n, 'x) callables \<Rightarrow> 'n \<Rightarrow> 'x batch list \<Rightarrow> 'x batch list \<Rightarrow> nat \<Rightarrow> rat \<Rightarrow>
     error + ('n \<times> rat list \<times> rat list \<times> report list)" where
  "train c net train_loader val_loader n_epoch treshold_preds =
     train_epochs c treshold_preds train_loader val_loader n_epoch (net, [], [], [])"

text \<open>The body of the loop of \<open>test\<close>, and \<open>test\<close>: the mean loss and the printed report.\<close>

definition test_batch ::
  "('n, 'x) callables \<Rightarrow> rat \<Rightarrow> 'n \<Rightarrow> pass_lists \<Rightarrow> 'x batch \<Rightarrow> pass_lists" where
  "test_batch c treshold_preds net acc b =
     (let samples = ecg_signals b; labels = labels b;
          preds = forward c False net samples;
          test_loss = loss_sum acc + criterion c preds labels;
          preds = map (map (sigmoid c)) preds;
          bin_preds = binarize treshold_preds preds
      in \<lparr>loss_sum = test_loss,
           labels_list = labels_list acc @ [labels],
           preds_list = preds_list acc @ [bin_preds],
           prob_list = prob_list acc @ [preds]\<rparr>)"

definition test_pass ::
  "('n, 'x) callables \<Rightarrow> rat \<Rightarrow> 'x batch list \<Rightarrow> 'n \<Rightarrow> pass_lists" where
  "test_pass c treshold_preds test_loader net =
     foldl (test_batch c treshold_preds net) no_batches test_loader"

definition test ::
  "('n, 'x) callables \<Rightarrow> 'n \<Rightarrow> 'x batch list \<Rightarrow> rat \<Rightarrow> error + (rat \<times> report)" where
  "test c net test_loader treshold_preds =
     (let acc = test_pass c treshold_preds test_loader net
      in if length test_loader = 0 then Inl ZeroDivisionError
         else
           let test_loss = loss_sum acc / of_nat (length test_loader)
           in and_then (report_of acc) (\<lambda>printed. Inr (test_loss, printed)))"

section \<open>Quantities used by the properties of the loops\<close>

text \<open>The network that the loop over \<open>train_loader\<close> leaves, and the network after \<open>k\<close> epochs.\<close>

definition trained :: "('n, 'x) callables \<Rightarrow> rat \<Rightarrow> 'x batch list \<Rightarrow> 'n \<Rightarrow> 'n" where
  "trained c treshold_preds train_loader net = fst (train_pass c treshold_preds train_loader net)"

definition net_after ::
  "('n, 'x) callables \<Rightarrow> rat \<Rightarrow> 'x batch list \<Rightarrow> nat \<Rightarrow> 'n \<Rightarrow> 'n" where
  "net_after c treshold_preds train_loader k net =
     ((trained c treshold_preds train_loader) ^^ k) net"

text \<open>
  The losses of the epoch that starts from the network \<open>net\<close>: the loss accumulated
  over the batches of the loader, divided by the number of batches.
\<close>

definition epoch_train_loss ::
  "('n, 'x) callables \<Rightarrow> rat \<Rightarrow> 'x batch list \<Rightarrow> 'n \<Rightarrow> rat" where
  "epoch_train_loss c treshold_preds train_loader net =
     loss_sum (snd (train_pass c treshold_preds train_loader net)) /
       of_nat (length train_loader)"

definition epoch_val_loss ::
  "('n, 'x) callables \<Rightarrow> rat \<Rightarrow> 'x batch list \<Rightarrow> 'x batch list \<Rightarrow> 'n \<Rightarrow> rat" where
  "epoch_val_loss c treshold_preds train_loader val_loader net =
     (\<Sum>b \<leftarrow> val_loader.
        criterion c (forward c False (trained c treshold_preds train_loader net)
                       (ecg_signals b)) (labels b)) /
       of_nat (length val_loader)"

text \<open>The metric report on the validation data, for the network \<open>net\<close>.\<close>

definition val_report ::
  "('n, 'x) callables \<Rightarrow> rat \<Rightarrow> 'x batch list \<Rightarrow> 'n \<Rightarrow> error + report" where
  "val_report c treshold_preds val_loader net =
     report_of (val_pass c treshold_preds val_loader net)"

text \<open>The result of \<open>n\<close> epochs that start from \<open>net\<close> with the histories \<open>h1\<close>, \<open>h2\<close>, \<open>out\<close>.\<close>

definition epochs_result ::
  "('n, 'x) callables \<Rightarrow> rat \<Rightarrow> 'x batch list \<Rightarrow> 'x batch list \<Rightarrow> nat \<Rightarrow>
     'n \<times> rat list \<times> rat list \<times> report list \<Rightarrow> 'n \<times> rat list \<times> rat list \<times> report list" where
  "epochs_result c t trl vl n state =
     (case state of (net, h1, h2, out) \<Rightarrow>
        (net_after c t trl n net,
         h1 @ map (\<lambda>k. epoch_train_loss c t trl (net_after c t trl k net)) [0 ..< n],
         h2 @ map (\<lambda>k. epoch_val_loss c t trl vl (net_after c t trl k net)) [0 ..< n],
         out @ map (\<lambda>k. projr (val_report c t vl (net_after c t trl (Suc k) net))) [0 ..< n]))"

section \<open>A concrete instance of the loops\<close>

text \<open>
  A network whose state counts the parameter updates and whose logits are the
  samples themselves, the sum of the squared logits as the loss, and a rational
  function with the shape of the logistic function (\<open>0\<close> is mapped to \<open>1 / 2\<close>) in
  the place of \<open>torch.sigmoid\<close>.
\<close>

definition example_callables :: "(nat, rat array2) callables" where
  "example_callables =
     \<lparr>forward = (\<lambda>training net samples. samples),
      criterion = (\<lambda>preds labels. \<Sum>z \<leftarrow> concat preds. z * z),
      optimizer_step = (\<lambda>net samples labels. Suc net),
      sigmoid = (\<lambda>z. (1 + z / (1 + \<bar>z\<bar>)) / 2)\<rparr>"

text \<open>
  Loaders over one label: two training batches of two samples, a validation batch
  of three samples whose last logit is mapped to the probability \<open>1 / 2\<close>, and a
  validation batch whose ground truth is all zero.
\<close>

definition example_train_loader :: "rat array2 batch list" where
  "example_train_loader =
     [\<lparr>ecg_signals = [[1, 0]], labels = [[True, False]]\<rparr>,
      \<lparr>ecg_signals = [[3, - 1]], labels = [[True, False]]\<rparr>]"

definition example_val_loader :: "rat array2 batch list" where
  "example_val_loader = [\<lparr>ecg_signals = [[2, - 2, 0]], labels = [[True, False, False]]\<rparr>]"

definition example_zero_val_loader :: "rat array2 batch list" where
  "example_zero_val_loader = [\<lparr>ecg_signals = [[2, - 2]], labels = [[False, False]]\<rparr>]"

section \<open>Properties of the network shapes\<close>

lemma and_then_Inr [simp]: "and_then (Inr x) f = f x"
  by (simp add: and_then_def)

lemma and_then_Inl [simp]: "and_then (Inl e) f = Inl e"
  by (simp add: and_then_def)

lemma strided_length:
  assumes "0 < l" "0 < s" shows "(l - Suc 0) div s + 1 = ceil_div l s"
proof -
  obtain m where m: "l = Suc m" using assms(1) by (cases l) auto
  have "(m + s) div s = m div s + 1" using assms(2) by simp
  then show ?thesis by (simp add: ceil_div_def m)
qed

lemma ceil_div_pos: "0 < l \<Longrightarrow> 0 < s \<Longrightarrow> 0 < ceil_div l s"
  unfolding ceil_div_def by (simp add: div_greater_zero_iff)

lemma single_value_back:
  assumes "0 < s" "n * l = 1" shows "n * ceil_div l s = 1"
proof -
  from assms(2) have "n = 1" "l = 1" by auto
  then show ?thesis using assms(1) by (simp add: ceil_div_def)
qed

lemma batch_norm1d_Inr:
  "c = f \<Longrightarrow> (training \<longrightarrow> n * l \<noteq> 1) \<Longrightarrow> batch_norm1d training f (n, c, l) = Inr (n, c, l)"
  by (auto simp add: batch_norm1d_def)

lemma tensor_add_same: "tensor_add x x = Inr x"
  by (cases x) (simp add: tensor_add_def broadcast_dim_def)

lemma valid_block_forward:
  assumes v: "valid_block b" and n: "0 < n" and l: "0 < l"
    and tr: "training \<longrightarrow> n * ceil_div l (stride b) \<noteq> 1"
  shows "Bottleneck_forward training b (n, inplanes b, l) =
           Inr (n, planes b * expansion, ceil_div l (stride b))"
proof -
  let ?s = "stride b" and ?p = "planes b"
  from v have s: "0 < ?s" by (simp add: valid_block_def)
  have tr0: "training \<longrightarrow> n * l \<noteq> 1"
    using tr single_value_back [OF s] by blast
  have c1: "conv1d (inplanes b) ?p 1 1 0 (n, inplanes b, l) = Inr (n, ?p, l)"
    using l by (simp add: conv1d_def)
  have b1: "batch_norm1d training ?p (n, ?p, l) = Inr (n, ?p, l)"
    using tr0 by (simp add: batch_norm1d_Inr)
  have c2: "conv1d ?p ?p 3 ?s 1 (n, ?p, l) = Inr (n, ?p, ceil_div l ?s)"
    using l s strided_length [OF l s] by (simp add: conv1d_def)
  have b2: "batch_norm1d training ?p (n, ?p, ceil_div l ?s) = Inr (n, ?p, ceil_div l ?s)"
    using tr by (simp add: batch_norm1d_Inr)
  have c3: "conv1d ?p (?p * expansion) 1 1 0 (n, ?p, ceil_div l ?s) =
              Inr (n, ?p * expansion, ceil_div l ?s)"
    using ceil_div_pos [OF l s] by (simp add: conv1d_def)
  have b3: "batch_norm1d training (?p * expansion) (n, ?p * expansion, ceil_div l ?s) =
              Inr (n, ?p * expansion, ceil_div l ?s)"
    using tr by (simp add: batch_norm1d_Inr)
  have res: "(case downsample b of None \<Rightarrow> Inr (n, inplanes b, l)
              | Some d \<Rightarrow> projection_forward training d (n, inplanes b, l)) =
             Inr (n, ?p * expansion, ceil_div l ?s)"
  proof (cases "downsample b")
    case None
    with v show ?thesis by (simp add: valid_block_def ceil_div_def)
  next
    case (Some d)
    with v have d: "proj_in d = inplanes b" "proj_out d = ?p * expansion"
      "proj_stride d = ?s" "proj_features d = ?p * expansion"
      by (simp_all add: valid_block_def)
    have "conv1d (inplanes b) (?p * expansion) 1 ?s 0 (n, inplanes b, l) =
            Inr (n, ?p * expansion, ceil_div l ?s)"
      using l s strided_length [OF l s] by (simp add: conv1d_def)
    then show ?thesis
      using Some d b3 by (simp add: projection_forward_def)
  qed
  show ?thesis
    unfolding Bottleneck_forward_def
    by (simp only: c1 b1 c2 b2 c3 b3 res relu_def and_then_Inr tensor_add_same)
qed

lemma plain_block:
  assumes "0 < p" "0 < n" "0 < l" "training \<longrightarrow> n * l \<noteq> 1"
  shows "Bottleneck_forward training
           \<lparr>inplanes = p * expansion, planes = p, stride = 1, downsample = None\<rparr>
           (n, p * expansion, l) = Inr (n, p * expansion, l)"
proof -
  let ?b = "\<lparr>inplanes = p * expansion, planes = p, stride = 1, downsample = None\<rparr>"
  have "valid_block ?b" using assms(1) by (simp add: valid_block_def expansion_def)
  from valid_block_forward [OF this assms(2,3), of training] assms(4)
  show ?thesis by (simp add: ceil_div_def)
qed

lemma plain_blocks:
  assumes "0 < p" "0 < n" "0 < l" "training \<longrightarrow> n * l \<noteq> 1"
  shows "sequential training
           (replicate k \<lparr>inplanes = p * expansion, planes = p, stride = 1, downsample = None\<rparr>)
           (n, p * expansion, l) = Inr (n, p * expansion, l)"
proof (induction k)
  case 0
  show ?case by simp
next
  case (Suc k)
  show ?case
    by (simp only: replicate_Suc sequential.simps plain_block [OF assms] and_then_Inr Suc)
qed

lemma stage_forward:
  assumes i: "0 < i" and p: "0 < p" and s: "0 < s" and n: "0 < n" and l: "0 < l"
    and tr: "training \<longrightarrow> n * ceil_div l s \<noteq> 1"
  shows "sequential training (fst (make_layer i p blocks s)) (n, i, l) =
           Inr (n, p * expansion, ceil_div l s)"
proof -
  let ?ds = "if s \<noteq> 1 \<or> i \<noteq> p * expansion
             then Some \<lparr>proj_in = i, proj_out = p * expansion,
                        proj_stride = s, proj_features = p * expansion\<rparr>
             else None"
  let ?first = "\<lparr>inplanes = i, planes = p, stride = s, downsample = ?ds\<rparr>"
  have v: "valid_block ?first" using i p s by (simp add: valid_block_def)
  have f: "Bottleneck_forward training ?first (n, i, l) = Inr (n, p * expansion, ceil_div l s)"
    using valid_block_forward [OF v n l, of training] tr by simp
  have r: "sequential training
             (replicate (blocks - 1)
                \<lparr>inplanes = p * expansion, planes = p, stride = 1, downsample = None\<rparr>)
             (n, p * expansion, ceil_div l s) = Inr (n, p * expansion, ceil_div l s)"
    using plain_blocks [OF p n ceil_div_pos [OF l s]] tr by simp
  show ?thesis
    by (simp only: make_layer_def Let_def fst_conv sequential.simps f and_then_Inr r)
qed

lemma final_length_gt: "32 < l \<Longrightarrow> 1 < final_length l"
  unfolding final_length_def ceil_div_def by simp

text \<open>
  C1.  For a network built by \<open>ResNet.__init__\<close> from any four (or more) block
  counts and any number of classes, an input of shape \<open>(batch, 12, length)\<close> with a
  non-empty batch and a length that survives the stem and the strided stages (at
  least one time step; in training mode more than 32 time steps when the batch holds
  a single sample, since five halvings then leave more than one value per channel for
  the normalisation layers) is mapped by \<open>ResNet.forward\<close> to shape
  \<open>(batch, num_classes)\<close>, in which the input length does not occur.
\<close>

theorem ResNet_forward_shape:
  assumes init: "ResNet_init layers num_classes = Inr net"
    and n: "0 < batch" and l: "0 < len"
    and tr: "training \<longrightarrow> 1 < batch \<or> 32 < len"
  shows "ResNet_forward training net (batch, 12, len) = Inr (batch, num_classes)"
proof -
  define l1 where "l1 = ceil_div len 2"
  define l2 where "l2 = ceil_div l1 2"
  define l3 where "l3 = ceil_div l2 2"
  define l4 where "l4 = ceil_div l3 2"
  define l5 where "l5 = ceil_div l4 2"
  have two: "0 < (2::nat)" by simp
  have p1: "0 < l1" unfolding l1_def by (rule ceil_div_pos [OF l two])
  have p2: "0 < l2" unfolding l2_def by (rule ceil_div_pos [OF p1 two])
  have p3: "0 < l3" unfolding l3_def by (rule ceil_div_pos [OF p2 two])
  have p4: "0 < l4" unfolding l4_def by (rule ceil_div_pos [OF p3 two])
  have p5: "0 < l5" unfolding l5_def by (rule ceil_div_pos [OF p4 two])
  have l5_eq: "l5 = final_length len"
    by (simp add: final_length_def l5_def l4_def l3_def l2_def l1_def)
  have t5: "training \<longrightarrow> batch * l5 \<noteq> 1"
  proof
    assume training
    with tr have "1 < batch \<or> 32 < len" by simp
    then show "batch * l5 \<noteq> 1"
      using final_length_gt [of len] l5_eq by auto
  qed
  have t4: "training \<longrightarrow> batch * l4 \<noteq> 1"
    using t5 single_value_back [OF two, of batch l4] by (auto simp: l5_def)
  have t3: "training \<longrightarrow> batch * l3 \<noteq> 1"
    using t4 single_value_back [OF two, of batch l3] by (auto simp: l4_def)
  have t2: "training \<longrightarrow> batch * l2 \<noteq> 1"
    using t3 single_value_back [OF two, of batch l2] by (auto simp: l3_def)
  have t1: "training \<longrightarrow> batch * l1 \<noteq> 1"
    using t2 single_value_back [OF two, of batch l1] by (auto simp: l2_def)
  from init have len4: "\<not> length layers < 4"
    by (auto simp: ResNet_init_def split: if_splits)
  from init len4 have net:
    "layer_1 net = fst (make_layer 64 64 (layers ! 0) 1)"
    "layer_2 net = fst (make_layer (64 * expansion) 128 (layers ! 1) 2)"
    "layer_3 net = fst (make_layer (128 * expansion) 256 (layers ! 2) 2)"
    "layer_4 net = fst (make_layer (256 * expansion) 512 (layers ! 3) 2)"
    "fc_in net = 512 * expansion" "fc_out net = num_classes"
    by (auto simp: ResNet_init_def make_layer_def Let_def split: prod.splits)
  have stem1: "conv1d 12 64 15 2 7 (batch, 12, len) = Inr (batch, 64, l1)"
    using l strided_length [OF l two] by (simp add: conv1d_def l1_def)
  have stem2: "batch_norm1d training 64 (batch, 64, l1) = Inr (batch, 64, l1)"
    using t1 by (simp add: batch_norm1d_Inr)
  have stem3: "max_pool1d 3 2 1 (batch, 64, l1) = Inr (batch, 64, l2)"
    using p1 strided_length [OF p1 two] by (simp add: max_pool1d_def l2_def)
  have s1: "sequential training (layer_1 net) (batch, 64, l2) = Inr (batch, 64 * expansion, l2)"
    using stage_forward [of 64 64 1 batch l2 training "layers ! 0"] n p2 t2
    by (simp add: net ceil_div_def)
  have s2: "sequential training (layer_2 net) (batch, 64 * expansion, l2) =
              Inr (batch, 128 * expansion, l3)"
    using stage_forward [of "64 * expansion" 128 2 batch l2 training "layers ! 1"] n p2 t3
    by (simp add: net l3_def expansion_def)
  have s3: "sequential training (layer_3 net) (batch, 128 * expansion, l3) =
              Inr (batch, 256 * expansion, l4)"
    using stage_forward [of "128 * expansion" 256 2 batch l3 training "layers ! 2"] n p3 t4
    by (simp add: net l4_def expansion_def)
  have s4: "sequential training (layer_4 net) (batch, 256 * expansion, l4) =
              Inr (batch, 512 * expansion, l5)"
    using stage_forward [of "256 * expansion" 512 2 batch l4 training "layers ! 3"] n p4 t5
    by (simp add: net l5_def expansion_def)
  have pool: "adaptive_avg_pool1d (batch, 512 * expansion, l5) = Inr (batch, 512 * expansion, 1)"
    using p5 by (simp add: adaptive_avg_pool1d_def)
  have flat: "flatten (batch, 512 * expansion, 1) = Inr (batch, 512 * expansion)"
    by (simp add: flatten_def)
  have fc: "linear (fc_in net) (fc_out net) (batch, 512 * expansion) = Inr (batch, num_classes)"
    by (simp add: linear_def net)
  show ?thesis
    unfolding ResNet_forward_def
    by (simp only: stem1 stem2 stem3 s1 s2 s3 s4 pool flat fc relu_def and_then_Inr)
qed

text \<open>
  The end-to-end example of the specification: block counts \<open>[3, 4, 6, 3]\<close>, five
  classes, a batch of shape \<open>(4, 12, 1000)\<close> in training mode.
\<close>

theorem ResNet_forward_shape_witness:
  "\<exists>net. ResNet_init [3, 4, 6, 3] 5 = Inr net \<and>
         ResNet_forward True net (4, 12, 1000) = Inr (4, 5)"
proof -
  obtain net where net: "ResNet_init [3, 4, 6, 3] 5 = Inr net"
    by (simp add: ResNet_init_def make_layer_def Let_def)
  have "ResNet_forward True net (4, 12, 1000) = Inr (4, 5)"
    by (rule ResNet_forward_shape [OF net]) simp_all
  with net show ?thesis by simp
qed

text \<open>
  C5.  In the stage that \<open>_make_layer\<close> builds, the first block carries a projection
  exactly when the stride differs from 1 or the current input channel count differs
  from \<open>planes * 4\<close>; the projection is then a convolution of kernel size 1 from the
  input channels to \<open>planes * 4\<close> channels with the stride of the stage, followed by a
  normalisation of \<open>planes * 4\<close> features.  Every later block of the stage has no
  projection.
\<close>

theorem make_layer_projection:
  "fst (make_layer self_inplanes pl blocks st) \<noteq> [] \<and>
   ((downsample (hd (fst (make_layer self_inplanes pl blocks st))) \<noteq> None) =
      (st \<noteq> 1 \<or> self_inplanes \<noteq> pl * 4)) \<and>
   (downsample (hd (fst (make_layer self_inplanes pl blocks st))) \<noteq> None \<longrightarrow>
      downsample (hd (fst (make_layer self_inplanes pl blocks st))) =
        Some \<lparr>proj_in = self_inplanes, proj_out = pl * 4, proj_stride = st,
              proj_features = pl * 4\<rparr>) \<and>
   (\<forall>b \<in> set (tl (fst (make_layer self_inplanes pl blocks st))). downsample b = None) \<and>
   length (tl (fst (make_layer self_inplanes pl blocks st))) = blocks - 1"
  by (simp add: make_layer_def Let_def expansion_def)

text \<open>
  The second stage of the network (stride 2, 64 input channels, 128 planes, 4 blocks)
  and a stage whose first block needs no projection (stride 1, 256 input channels,
  64 planes, 3 blocks).
\<close>

theorem make_layer_projection_witness:
  "downsample (hd (fst (make_layer 64 128 4 2))) =
     Some \<lparr>proj_in = 64, proj_out = 512, proj_stride = 2, proj_features = 512\<rparr> \<and>
   map downsample (tl (fst (make_layer 64 128 4 2))) = [None, None, None] \<and>
   downsample (hd (fst (make_layer 256 64 3 1))) = None \<and>
   map downsample (tl (fst (make_layer 256 64 3 1))) = [None, None]"
proof -
  have all_None: "map f xs = replicate (length xs) None" if "\<forall>x \<in> set xs. f x = None"
    for f :: "bottleneck \<Rightarrow> projection option" and xs
    using that by (induction xs) simp_all
  have a: "map downsample (tl (fst (make_layer 64 128 4 2))) = replicate (4 - 1) None"
    using make_layer_projection [of 64 128 4 2]
      all_None [of "tl (fst (make_layer 64 128 4 2))" downsample] by simp
  have b: "map downsample (tl (fst (make_layer 256 64 3 1))) = replicate (3 - 1) None"
    using make_layer_projection [of 256 64 3 1]
      all_None [of "tl (fst (make_layer 256 64 3 1))" downsample] by simp
  have c: "downsample (hd (fst (make_layer 64 128 4 2))) =
     Some \<lparr>proj_in = 64, proj_out = 512, proj_stride = 2, proj_features = 512\<rparr>"
    using make_layer_projection [of 64 128 4 2] by simp
  have d: "downsample (hd (fst (make_layer 256 64 3 1))) = None"
    using make_layer_projection [of 256 64 3 1] by simp
  show ?thesis
    using a b c d by (simp add: numeral_3_eq_3 numeral_2_eq_2)
qed

text \<open>
  C6.  A validly constructed block in training mode refuses an input with a single
  value per channel, and in either mode an input of length 0; in both cases
  \<open>Bottleneck.forward\<close> raises instead of returning a tensor of the stated shape.
\<close>

theorem Bottleneck_forward_shape_counterexample:
  "valid_block \<lparr>inplanes = 256, planes = 64, stride = 1, downsample = None\<rparr> \<and>
   Bottleneck_forward True
     \<lparr>inplanes = 256, planes = 64, stride = 1, downsample = None\<rparr> (1, 256, 1)
     = Inl ValueError \<and>
   Bottleneck_forward False
     \<lparr>inplanes = 256, planes = 64, stride = 1, downsample = None\<rparr> (4, 256, 0)
     = Inl RuntimeError"
  by (simp add: valid_block_def expansion_def Bottleneck_forward_def conv1d_def
      batch_norm1d_def relu_def)

text \<open>
  C6, as amended.  For a validly constructed block, a non-empty batch and a positive
  length, and unless the block is in training mode with
  \<open>batch * \<lceil>length / stride\<rceil> = 1\<close>, \<open>Bottleneck.forward\<close> maps shape
  \<open>(batch, inplanes, length)\<close> to \<open>(batch, planes * 4, \<lceil>length / stride\<rceil>)\<close>, with
  or without a projection on the skip path.
\<close>

theorem Bottleneck_forward_shape:
  assumes "valid_block b" and "0 < batch" and "0 < len"
    and "training \<longrightarrow> batch * ceil_div len (stride b) \<noteq> 1"
  shows "Bottleneck_forward training b (batch, inplanes b, len) =
           Inr (batch, planes b * 4, ceil_div len (stride b))"
  using valid_block_forward [OF assms] by (simp add: expansion_def)

text \<open>
  The first block of the second stage (with a projection) and a later block of the
  first stage (without one), on a batch of four samples in training mode.
\<close>

theorem Bottleneck_forward_shape_witness:
  "valid_block \<lparr>inplanes = 256, planes = 128, stride = 2, downsample =
       Some \<lparr>proj_in = 256, proj_out = 512, proj_stride = 2, proj_features = 512\<rparr>\<rparr> \<and>
   Bottleneck_forward True
     \<lparr>inplanes = 256, planes = 128, stride = 2, downsample =
       Some \<lparr>proj_in = 256, proj_out = 512, proj_stride = 2, proj_features = 512\<rparr>\<rparr>
     (4, 256, 250) = Inr (4, 512, 125) \<and>
   valid_block \<lparr>inplanes = 256, planes = 64, stride = 1, downsample = None\<rparr> \<and>
   Bottleneck_forward True
     \<lparr>inplanes = 256, planes = 64, stride = 1, downsample = None\<rparr>
     (4, 256, 250) = Inr (4, 256, 250)"
proof -
  let ?b = "\<lparr>inplanes = 256, planes = 128, stride = 2, downsample =
       Some \<lparr>proj_in = 256, proj_out = 512, proj_stride = 2, proj_features = 512\<rparr>\<rparr>"
  let ?c = "\<lparr>inplanes = 256, planes = 64, stride = 1, downsample = None\<rparr>"
  have vb: "valid_block ?b" and vc: "valid_block ?c"
    by (simp_all add: valid_block_def expansion_def)
  have "Bottleneck_forward True ?b (4, inplanes ?b, 250) =
          Inr (4, planes ?b * 4, ceil_div 250 (stride ?b))"
    by (rule Bottleneck_forward_shape [OF vb]) (simp_all add: ceil_div_def)
  moreover have "Bottleneck_forward True ?c (4, inplanes ?c, 250) =
          Inr (4, planes ?c * 4, ceil_div 250 (stride ?c))"
    by (rule Bottleneck_forward_shape [OF vc]) (simp_all add: ceil_div_def)
  ultimately show ?thesis using vb vc by (simp add: ceil_div_def)
qed

section \<open>Properties of the metric reporter\<close>

lemma column_Inr: "column a i = Inr c \<longleftrightarrow> i < length a \<and> c = a ! i"
  by (auto simp: column_def)

lemma and_then_eq_Inr: "and_then m f = Inr y \<longleftrightarrow> (\<exists>x. m = Inr x \<and> f x = Inr y)"
  by (cases m) simp_all

lemma label_rates_Inr:
  assumes "label_rates L P st i = Inr st'"
  shows "appended L P st [i] st'" and "roc_auc st' = roc_auc st"
  using assms
  by (auto simp: label_rates_def and_then_eq_Inr column_Inr confusion_matrix_def Let_def
      label_f1_def appended_def split: if_splits)




















lemma count_of_no_positive:
  assumes "True \<notin> set y"
  shows "count_of True q y p = 0"
proof -
  have "filter (\<lambda>(a, b). a = True \<and> b = q) (zip y p) = []"
    using assms by (auto simp: filter_empty_conv dest: set_zip_leftD)
  then show ?thesis by (simp add: count_of_def)
qed

lemma count_of_false_positive:
  assumes "True \<notin> set y" "length p = length y"
  shows "count_of False True y p = 0 \<longleftrightarrow> True \<notin> set p"
proof
  assume "count_of False True y p = 0"
  then have none: "\<forall>(a, b) \<in> set (zip y p). \<not> (a = False \<and> b = True)"
    by (auto simp: count_of_def filter_empty_conv)
  show "True \<notin> set p"
  proof
    assume "True \<in> set p"
    then obtain j where j: "j < length p" "p ! j = True" by (auto simp: in_set_conv_nth)
    with assms have "(y ! j, True) \<in> set (zip y p)"
      by (auto simp: set_zip)
    moreover have "y ! j = False" using assms j by (metis nth_mem)
    ultimately show False using none by auto
  qed
next
  assume "True \<notin> set p"
  then have "filter (\<lambda>(a, b). a = False \<and> b = True) (zip y p) = []"
    by (auto simp: filter_empty_conv dest: set_zip_rightD)
  then show "count_of False True y p = 0" by (simp add: count_of_def)
qed

lemma for_each_fails:
  assumes "i \<in> set is" "\<And>st. \<exists>e. body st i = Inl e"
  shows "\<exists>e. for_each body is st = Inl e"
  using assms(1)
proof (induction "is" arbitrary: st)
  case Nil
  then show ?case by simp
next
  case (Cons j "is")
  show ?case
  proof (cases "body st j")
    case (Inl e)
    then show ?thesis by simp
  next
    case (Inr st1)
    with assms(2) [of st] have "j \<noteq> i" by auto
    with Cons.prems have "i \<in> set is" by simp
    from Cons.IH [OF this, of st1] Inr show ?thesis by simp
  qed
qed

lemma roc_auc_single_class:
  "True \<notin> set y \<Longrightarrow> roc_auc_score y s = Inl ValueError"
  by (simp add: roc_auc_score_def)

lemma label_step_single_class:
  assumes "True \<notin> set (L ! i)"
  shows "\<exists>e. label_step L P S st i = Inl e"
proof (cases "label_rates L P st i")
  case (Inl e)
  then show ?thesis by (simp add: label_step_def)
next
  case (Inr st1)
  then show ?thesis
    using assms
    by (cases "column L i"; cases "column S i")
      (auto simp: label_step_def column_def roc_auc_single_class split: if_splits)
qed

lemmas metric_eval = metric_func_def label_step_def label_rates_def column_def
  confusion_matrix_def count_of_def Let_def no_labels_def roc_auc_score_def auc_pairs_def
  sensitivity_of_def specificity_of_def precision_of_def f1_of_def np_mean_def np_sum_def
  np_div_def np_mul_def np_add_def of_count_def

text \<open>
  C2.  One label over two samples, ground truth all zero, the first sample predicted
  positive: the rates that the loop body appends are sensitivity \<open>0 / 0\<close> (NaN) but
  precision \<open>0 / 1 = 0\<close>, which is defined.
\<close>

theorem all_zero_label_column_counterexample:
  "label_rates [[False, False]] [[True, False]] no_labels 0 =
     Inr \<lparr>TP = [0], FP = [1], TN = [1], FN = [0], sensitivity = [NaN],
          specificity = [Fin (1 / 2)], precision = [Fin 0], my_f1 = [NaN], roc_auc = []\<rparr>"
  by (simp add: metric_eval)

text \<open>
  C2, as amended.  Let label \<open>i\<close> have an all-zero ground truth, and let the loop body
  reach its rates (the confusion matrix of the label is computed).  Then the
  sensitivity appended for the label is the undefined \<open>0 / 0\<close> (NaN); the precision
  appended for it is \<open>0 / 0\<close> (NaN) exactly when the label also has no positive
  prediction, and \<open>0 / FP = 0\<close> otherwise; \<open>roc_auc_score\<close> raises on the label,
  whatever the scores; and no path handles any of it, so \<open>metric_func\<close> raises.
\<close>

theorem all_zero_label_column:
  assumes i: "i < length bin_labels" and zero: "True \<notin> set (bin_labels ! i)"
    and rates: "label_rates bin_labels bin_preds st i = Inr st'"
  shows "last (sensitivity st') = NaN \<and>
         last (precision st') = (if True \<in> set (bin_preds ! i) then Fin 0 else NaN) \<and>
         roc_auc_score (bin_labels ! i) y_score = Inl ValueError \<and>
         (\<exists>e. metric_func bin_labels bin_preds preds = Inl e)"
proof -
  let ?y = "bin_labels ! i" and ?p = "bin_preds ! i"
  from rates have len: "length ?p = length ?y"
    by (auto simp: label_rates_def and_then_eq_Inr column_Inr confusion_matrix_def
        split: if_splits)
  from label_rates_Inr(1) [OF rates] have
    sens: "last (sensitivity st') =
             sensitivity_of (count_of True True ?y ?p) (count_of True False ?y ?p)"
    and prec: "last (precision st') =
             precision_of (count_of True True ?y ?p) (count_of False True ?y ?p)"
    by (simp_all add: appended_def)
  have tp: "count_of True True ?y ?p = 0" and fn: "count_of True False ?y ?p = 0"
    using zero by (rule count_of_no_positive)+
  have a: "last (sensitivity st') = NaN"
    by (simp add: sens tp fn sensitivity_of_def np_div_def of_count_def)
  have b: "last (precision st') = (if True \<in> set ?p then Fin 0 else NaN)"
    using count_of_false_positive [OF zero len]
    by (auto simp: prec tp precision_of_def np_div_def of_count_def)
  have c: "roc_auc_score ?y y_score = Inl ValueError"
    using zero by (rule roc_auc_single_class)
  have "\<exists>e. for_each (label_step bin_labels bin_preds preds) [0 ..< length bin_labels] no_labels
          = Inl e"
    by (rule for_each_fails [of i]) (use i in \<open>simp_all add: label_step_single_class [OF zero]\<close>)
  then have d: "\<exists>e. metric_func bin_labels bin_preds preds = Inl e"
    by (auto simp: metric_func_def)
  from a b c d show ?thesis by blast
qed

text \<open>
  Two labels over two samples, predictions equal to the labels, the first label with
  an all-zero ground truth.
\<close>

theorem all_zero_label_column_witness:
  "label_rates [[False, False], [True, False]] [[False, False], [True, False]] no_labels 0 =
     Inr \<lparr>TP = [0], FP = [0], TN = [2], FN = [0], sensitivity = [NaN],
          specificity = [Fin 1], precision = [NaN], my_f1 = [NaN], roc_auc = []\<rparr> \<and>
   roc_auc_score [False, False] [1 / 4, 3 / 4] = Inl ValueError \<and>
   (\<exists>e. metric_func [[False, False], [True, False]] [[False, False], [True, False]]
          [[1 / 4, 3 / 4], [1, 0]] = Inl e)"
proof -
  let ?L = "[[False, False], [True, False]]"
  let ?r = "\<lparr>TP = [0], FP = [0], TN = [2], FN = [0], sensitivity = [NaN],
          specificity = [Fin 1], precision = [NaN], my_f1 = [NaN], roc_auc = []\<rparr>"
  have r: "label_rates ?L ?L no_labels 0 = Inr ?r"
    by (simp add: metric_eval)
  have "last (sensitivity ?r) = NaN \<and>
         last (precision ?r) = (if True \<in> set (?L ! 0) then Fin 0 else NaN) \<and>
         roc_auc_score (?L ! 0) [1 / 4, 3 / 4] = Inl ValueError \<and>
         (\<exists>e. metric_func ?L ?L [[1 / 4, 3 / 4], [1, 0]] = Inl e)"
    by (rule all_zero_label_column [OF _ _ r]) simp_all
  with r show ?thesis by simp
qed








section \<open>Properties of the training and evaluation loops\<close>


lemma foldl_val_batch:
  "foldl (val_batch c t net) acc bs =
     \<lparr>loss_sum = loss_sum acc +
         (\<Sum>b \<leftarrow> bs. criterion c (forward c False net (ecg_signals b)) (labels b)),
      labels_list = labels_list acc @ map labels bs,
      preds_list = preds_list acc @
         map (\<lambda>b. binarize t (map (map (sigmoid c)) (forward c False net (ecg_signals b)))) bs,
      prob_list = prob_list acc @
         map (\<lambda>b. map (map (sigmoid c)) (forward c False net (ecg_signals b))) bs\<rparr>"
  by (induction bs arbitrary: acc) (simp_all add: val_batch_def Let_def add.assoc)

lemma val_pass_eq:
  "val_pass c t bs net =
     \<lparr>loss_sum = (\<Sum>b \<leftarrow> bs. criterion c (forward c False net (ecg_signals b)) (labels b)),
      labels_list = map labels bs,
      preds_list =
         map (\<lambda>b. binarize t (map (map (sigmoid c)) (forward c False net (ecg_signals b)))) bs,
      prob_list = map (\<lambda>b. map (map (sigmoid c)) (forward c False net (ecg_signals b))) bs\<rparr>"
  by (simp add: val_pass_def foldl_val_batch no_batches_def)





lemma run_epoch_Inr:
  "run_epoch c t trl vl net = Inr (net', a, b, rep) \<longleftrightarrow>
     trl \<noteq> [] \<and> vl \<noteq> [] \<and> net' = trained c t trl net \<and>
     a = epoch_train_loss c t trl net \<and> b = epoch_val_loss c t trl vl net \<and>
     val_report c t vl (trained c t trl net) = Inr rep"
  by (cases "train_pass c t trl net")
    (auto simp: run_epoch_def after_train_pass_def Let_def and_then_eq_Inr trained_def
      epoch_train_loss_def epoch_val_loss_def val_report_def val_pass_eq)

lemma net_after_Suc: "net_after c t trl k (trained c t trl net) = net_after c t trl (Suc k) net"
  by (simp add: net_after_def funpow_swap1)

lemma net_after_0: "net_after c t trl 0 net = net"
  by (simp add: net_after_def)

lemma epochs_result_Suc:
  assumes "val_report c t vl (trained c t trl net) = Inr rep"
  shows "epochs_result c t trl vl n
           (trained c t trl net, h1 @ [epoch_train_loss c t trl net],
            h2 @ [epoch_val_loss c t trl vl net], out @ [rep]) =
         epochs_result c t trl vl (Suc n) (net, h1, h2, out)"
  using assms
  by (simp add: epochs_result_def map_upt_Suc net_after_Suc net_after_0 del: upt_Suc)
    (simp add: net_after_def)

lemma train_epochs_Inr:
  assumes "train_epochs c t trl vl n (net, h1, h2, out) = Inr res"
  shows "res = epochs_result c t trl vl n (net, h1, h2, out) \<and>
         (\<forall>k<n. \<exists>rep. val_report c t vl (net_after c t trl (Suc k) net) = Inr rep)"
  using assms
proof (induction n arbitrary: net h1 h2 out)
  case 0
  then show ?case by (simp add: epochs_result_def net_after_0)
next
  case (Suc n)
  from Suc.prems obtain net' a b rep where
    e: "run_epoch c t trl vl net = Inr (net', a, b, rep)"
    and r: "train_epochs c t trl vl n (net', h1 @ [a], h2 @ [b], out @ [rep]) = Inr res"
    by (auto simp: and_then_eq_Inr)
  from e have eqs: "net' = trained c t trl net" "a = epoch_train_loss c t trl net"
    "b = epoch_val_loss c t trl vl net" and v: "val_report c t vl (trained c t trl net) = Inr rep"
    by (simp_all add: run_epoch_Inr)
  from Suc.IH [OF r] have res: "res = epochs_result c t trl vl n (net', h1 @ [a], h2 @ [b], out @ [rep])"
    and rest: "\<forall>k<n. \<exists>rep. val_report c t vl (net_after c t trl (Suc k) net') = Inr rep"
    by simp_all
  have "\<exists>rep. val_report c t vl (net_after c t trl (Suc k) net) = Inr rep" if "k < Suc n" for k
  proof (cases k)
    case 0
    with v show ?thesis by (simp add: net_after_def)
  next
    case (Suc j)
    with that rest have "\<exists>rep. val_report c t vl (net_after c t trl (Suc j) net') = Inr rep"
      by simp
    then show ?thesis by (simp add: Suc eqs net_after_Suc)
  qed
  moreover have "res = epochs_result c t trl vl (Suc n) (net, h1, h2, out)"
    unfolding res eqs by (rule epochs_result_Suc [OF v])
  ultimately show ?case by blast
qed

lemma train_epochs_returns:
  assumes "trl \<noteq> []" "vl \<noteq> []"
    and "\<forall>k<n. \<exists>rep. val_report c t vl (net_after c t trl (Suc k) net) = Inr rep"
  shows "\<exists>res. train_epochs c t trl vl n (net, h1, h2, out) = Inr res"
  using assms(3)
proof (induction n arbitrary: net h1 h2 out)
  case 0
  show ?case by simp
next
  case (Suc n)
  from Suc.prems obtain rep where v: "val_report c t vl (trained c t trl net) = Inr rep"
    by (auto simp: net_after_def)
  then have e: "run_epoch c t trl vl net =
      Inr (trained c t trl net, epoch_train_loss c t trl net, epoch_val_loss c t trl vl net, rep)"
    using assms(1,2) by (simp add: run_epoch_Inr)
  have "\<forall>k<n. \<exists>rep. val_report c t vl (net_after c t trl (Suc k) (trained c t trl net)) = Inr rep"
    using Suc.prems by (simp add: net_after_Suc)
  from Suc.IH [OF this] show ?case by (simp add: e)
qed

lemma train_result:
  assumes "train c net trl vl n t = Inr (net', h_tr, h_val, printed)"
  shows "net' = net_after c t trl n net"
    and "h_tr = map (\<lambda>k. epoch_train_loss c t trl (net_after c t trl k net)) [0 ..< n]"
    and "h_val = map (\<lambda>k. epoch_val_loss c t trl vl (net_after c t trl k net)) [0 ..< n]"
    and "length printed = n"
    and "\<forall>k<n. val_report c t vl (net_after c t trl (Suc k) net) = Inr (printed ! k)"
proof -
  from assms have r: "train_epochs c t trl vl n (net, [], [], []) = Inr (net', h_tr, h_val, printed)"
    by (simp add: train_def)
  from train_epochs_Inr [OF r] have
    res: "(net', h_tr, h_val, printed) = epochs_result c t trl vl n (net, [], [], [])"
    and ok: "\<forall>k<n. \<exists>rep. val_report c t vl (net_after c t trl (Suc k) net) = Inr rep"
    by simp_all
  from res show "net' = net_after c t trl n net"
    and "h_tr = map (\<lambda>k. epoch_train_loss c t trl (net_after c t trl k net)) [0 ..< n]"
    and "h_val = map (\<lambda>k. epoch_val_loss c t trl vl (net_after c t trl k net)) [0 ..< n]"
    and p: "length printed = n"
    by (simp_all add: epochs_result_def)
  from res have "printed = map (\<lambda>k. projr (val_report c t vl (net_after c t trl (Suc k) net))) [0 ..< n]"
    by (simp add: epochs_result_def)
  with ok show "\<forall>k<n. val_report c t vl (net_after c t trl (Suc k) net) = Inr (printed ! k)"
    by auto
qed

lemmas example_eval = example_callables_def example_train_loader_def example_val_loader_def

lemma example_val_report:
  "\<exists>rep. val_report example_callables (1 / 2) example_val_loader n = Inr rep"
  by (simp add: val_report_def val_pass_eq report_of_def binarize_def example_eval metric_eval)

lemma example_train_loss:
  "epoch_train_loss example_callables (1 / 2) example_train_loader n = 11 / 2"
  by (simp add: epoch_train_loss_def train_pass_def train_batch_def no_batches_def Let_def
      example_eval)

lemma example_val_loss:
  "epoch_val_loss example_callables (1 / 2) example_train_loader example_val_loader n = 8"
  by (simp add: epoch_val_loss_def example_eval)

text \<open>
  C8.  One epoch over non-empty loaders whose validation labels are all zero: the
  metric reporter raises at the end of the epoch and \<open>train\<close> raises with it,
  instead of returning the network and the histories.
\<close>

theorem train_histories_counterexample:
  "example_train_loader \<noteq> [] \<and> example_zero_val_loader \<noteq> [] \<and>
   train example_callables 0 example_train_loader example_zero_val_loader 1 (1 / 2) =
     Inl ValueError"
  by (simp add: train_def run_epoch_def after_train_pass_def train_pass_def train_batch_def
      no_batches_def val_pass_eq report_of_def binarize_def example_eval
      example_zero_val_loader_def metric_eval)

text \<open>
  C8, as amended.  For non-empty loaders, and when in no epoch the metric reporter
  raises on the validation data (the report on the validation data exists for the
  network left by each of the \<open>n_epoch\<close> training passes), \<open>train\<close> returns the
  network with a training-loss and a validation-loss history.  Both have length
  \<open>n_epoch\<close>; entry \<open>k\<close> is the loss accumulated in epoch \<open>k\<close> over the batches of
  the loader, divided by the number of its batches.
\<close>

theorem train_histories:
  assumes "train_loader \<noteq> []" and "val_loader \<noteq> []"
    and "\<forall>k<n_epoch. \<exists>rep. val_report c treshold_preds val_loader
           (net_after c treshold_preds train_loader (Suc k) net) = Inr rep"
  shows "\<exists>net' loss_train_history loss_val_history printed.
           train c net train_loader val_loader n_epoch treshold_preds =
             Inr (net', loss_train_history, loss_val_history, printed) \<and>
           length loss_train_history = n_epoch \<and> length loss_val_history = n_epoch \<and>
           loss_train_history =
             map (\<lambda>k. epoch_train_loss c treshold_preds train_loader
                         (net_after c treshold_preds train_loader k net)) [0 ..< n_epoch] \<and>
           loss_val_history =
             map (\<lambda>k. epoch_val_loss c treshold_preds train_loader val_loader
                         (net_after c treshold_preds train_loader k net)) [0 ..< n_epoch]"
proof -
  from train_epochs_returns [OF assms, of "[]" "[]" "[]"]
  obtain res where "train c net train_loader val_loader n_epoch treshold_preds = Inr res"
    unfolding train_def by blast
  then obtain net' h_tr h_val printed where
    r: "train c net train_loader val_loader n_epoch treshold_preds = Inr (net', h_tr, h_val, printed)"
    by (cases res) auto
  from train_result(2,3) [OF r] r show ?thesis by simp
qed

text \<open>
  Two epochs over two training batches with losses 1 and 10 and one validation
  batch with loss 8.
\<close>

theorem train_histories_witness:
  "\<exists>net' printed.
     train example_callables 0 example_train_loader example_val_loader 2 (1 / 2) =
       Inr (net', [11 / 2, 11 / 2], [8, 8], printed)"
proof -
  have ne: "example_train_loader \<noteq> []" "example_val_loader \<noteq> []"
    by (simp_all add: example_eval)
  have ok: "\<forall>k<2. \<exists>rep. val_report example_callables (1 / 2) example_val_loader
      (net_after example_callables (1 / 2) example_train_loader (Suc k) 0) = Inr rep"
    by (simp add: example_val_report)
  have u: "[0 ..< 2] = [0, Suc 0]"
    by (simp add: numeral_2_eq_2)
  from train_histories [OF ne ok] show ?thesis
    by (auto simp: example_train_loss example_val_loss u)
qed





end
